theory Spec2Isabelle
  imports Main "HOL-Library.List_Lexorder" "HOL-Library.Char_ord" "HOL-Library.Multiset"
begin

section \<open>The roster comparison script (roster\_compare.py)\<close>

text \<open>
  The script fetches the roster of one team for two seasons, builds the set of player
  names of each position group and prints, per group, the names found only in the first
  season, only in the second, and in both.

  Strings are \<^typ>\<open>string\<close>; their order is the lexicographic order of
  \<open>List_Lexorder\<close> over the numeric character order of \<open>Char_ord\<close>, which is the
  order Python's \<open>sorted\<close> uses on \<open>str\<close> (on UTF-8 bytes the bytewise order and the
  code-point order agree).
\<close>

subsection \<open>Data\<close>

text \<open>
  The exceptions the script can die from: the HTTP client failing to connect, the JSON
  decoder rejecting the body (\<open>r.json()\<close>), and a missing dictionary key under
  \<open>d[k]\<close>.
\<close>

datatype error = ConnectionError | JSONDecodeError | KeyError string

text \<open>
  A roster document is the decoded JSON object: position-group key to the sequence of its
  player records. A player record maps field names to name fields, a name field maps
  locale keys (\<open>default\<close>, ...) to the display string.
\<close>

type_synonym name_field = "string \<rightharpoonup> string"
type_synonym player = "string \<rightharpoonup> name_field"
type_synonym roster_doc = "string \<rightharpoonup> player list"

text \<open>
  What \<open>requests.get\<close> hands back: the status code and the body. \<open>json_body\<close> is the
  body as \<open>r.json()\<close> decodes it, \<open>None\<close> when the decoder rejects it.
\<close>

record response =
  status_code :: nat
  json_body :: "roster_doc option"

datatype http_result = ConnectionFailed | Response response

subsection \<open>Fetching (lines 3--9)\<close>

definition roster_url :: "string \<Rightarrow> string" where
  "roster_url season = ''https://api-web.nhle.com/v1/roster/UTA/'' @ season"

text \<open>The network is a parameter: what a GET of each URL yields.\<close>

definition get_roster :: "(string \<Rightarrow> http_result) \<Rightarrow> string \<Rightarrow> error + roster_doc" where
  "get_roster net season =
     (case net (roster_url season) of
        ConnectionFailed \<Rightarrow> Inl ConnectionError
      | Response r \<Rightarrow>
          (case json_body r of
             None \<Rightarrow> Inl JSONDecodeError
           | Some doc \<Rightarrow> Inr doc))"

subsection \<open>Name extraction (lines 15, 16, 33, 34)\<close>

text \<open>\<open>d[k]\<close> raises \<open>KeyError\<close> on a missing key; \<open>d.get(k, dflt)\<close> does not.\<close>

definition subscript :: "(string \<rightharpoonup> 'v) \<Rightarrow> string \<Rightarrow> error + 'v" where
  "subscript d k = (case d k of None \<Rightarrow> Inl (KeyError k) | Some v \<Rightarrow> Inr v)"

definition get_default :: "(string \<rightharpoonup> 'v) \<Rightarrow> string \<Rightarrow> 'v \<Rightarrow> 'v" where
  "get_default d k dflt = (case d k of None \<Rightarrow> dflt | Some v \<Rightarrow> v)"

text \<open>
  The f-string \<open>f"{p['firstName']['default']} {p['lastName']['default']}"\<close>: the four
  subscripts are evaluated left to right, the first missing key raises.
\<close>

definition player_name :: "player \<Rightarrow> error + string" where
  "player_name p =
     (case subscript p ''firstName'' of
        Inl e \<Rightarrow> Inl e
      | Inr f \<Rightarrow>
     (case subscript f ''default'' of
        Inl e \<Rightarrow> Inl e
      | Inr fd \<Rightarrow>
     (case subscript p ''lastName'' of
        Inl e \<Rightarrow> Inl e
      | Inr l \<Rightarrow>
     (case subscript l ''default'' of
        Inl e \<Rightarrow> Inl e
      | Inr ld \<Rightarrow> Inr (fd @ '' '' @ ld)))))"

text \<open>The set comprehension over the records, in sequence order.\<close>

fun name_set :: "player list \<Rightarrow> error + string set" where
  "name_set [] = Inr {}"
| "name_set (p # ps) =
     (case player_name p of
        Inl e \<Rightarrow> Inl e
      | Inr n \<Rightarrow>
          (case name_set ps of
             Inl e \<Rightarrow> Inl e
           | Inr S \<Rightarrow> Inr (insert n S)))"

definition extract_names :: "roster_doc \<Rightarrow> string \<Rightarrow> error + string set" where
  "extract_names doc grp = name_set (get_default doc grp [])"

subsection \<open>The three compared sets\<close>

definition only_in_first :: "string set \<Rightarrow> string set \<Rightarrow> string set" where
  "only_in_first a b = a - b"

definition only_in_second :: "string set \<Rightarrow> string set \<Rightarrow> string set" where
  "only_in_second a b = b - a"

definition common :: "string set \<Rightarrow> string set \<Rightarrow> string set" where
  "common a b = a \<inter> b"

subsection \<open>Rendering\<close>

text \<open>\<open>str\<close> of an integer, as the f-strings render \<open>len(...)\<close> and \<open>len(...) - 5\<close>.\<close>

definition digit_char :: "nat \<Rightarrow> char" where
  "digit_char d = ''0123456789'' ! d"

fun digits :: "nat \<Rightarrow> string" where
  "digits n = (if n < 10 then [digit_char n] else digits (n div 10) @ [digit_char (n mod 10)])"

declare digits.simps [simp del]

definition str_of_int :: "int \<Rightarrow> string" where
  "str_of_int i = (if i < 0 then CHR ''-'' # digits (nat (- i)) else digits (nat i))"

text \<open>
  The output is the list of the arguments of the \<open>print\<close> calls, in order. The name lines
  of each loop:
\<close>

definition only_lines :: "string set \<Rightarrow> string set \<Rightarrow> string list" where
  "only_lines a b = map (\<lambda>p. ''  - '' @ p) (sorted_list_of_set (only_in_first a b))"

definition new_lines :: "string set \<Rightarrow> string set \<Rightarrow> string list" where
  "new_lines a b = map (\<lambda>p. ''  + '' @ p) (sorted_list_of_set (only_in_second a b))"

text \<open>
  \<open>sorted(list(fwd_24 & fwd_25)[:5])\<close>: \<open>list\<close> of a set enumerates it in the set's
  iteration order, which Python leaves unspecified; \<open>iter\<close> is that order. The slice is
  taken before sorting.
\<close>

definition fwd_common_names :: "(string set \<Rightarrow> string list) \<Rightarrow> string set \<Rightarrow> string set \<Rightarrow> string list" where
  "fwd_common_names iter a b = sort (take 5 (iter (common a b)))"

definition fwd_common_lines :: "(string set \<Rightarrow> string list) \<Rightarrow> string set \<Rightarrow> string set \<Rightarrow> string list" where
  "fwd_common_lines iter a b = map (\<lambda>p. ''    '' @ p) (fwd_common_names iter a b)"

definition fwd_more_line :: "string set \<Rightarrow> string set \<Rightarrow> string" where
  "fwd_more_line a b = ''    ... and '' @ str_of_int (int (card (common a b)) - 5) @ '' more''"

definition goalie_common_lines :: "string set \<Rightarrow> string set \<Rightarrow> string list" where
  "goalie_common_lines a b = map (\<lambda>p. ''    '' @ p) (sorted_list_of_set (common a b))"

text \<open>Lines 18--29.\<close>

definition fwd_only_header :: "string set \<Rightarrow> string set \<Rightarrow> string" where
  "fwd_only_header a b =
     ''\<newline>24-25 Only ('' @ str_of_int (int (card (only_in_first a b))) @ ''):''"

definition fwd_new_header :: "string set \<Rightarrow> string set \<Rightarrow> string" where
  "fwd_new_header a b =
     ''\<newline>25-26 New ('' @ str_of_int (int (card (only_in_second a b))) @ ''):''"

definition fwd_common_header :: "string set \<Rightarrow> string set \<Rightarrow> string" where
  "fwd_common_header a b =
     ''\<newline>Common ('' @ str_of_int (int (card (common a b))) @ ''):''"

definition fwd_common_block :: "(string set \<Rightarrow> string list) \<Rightarrow> string set \<Rightarrow> string set \<Rightarrow> string list" where
  "fwd_common_block iter a b =
     fwd_common_header a b # fwd_common_lines iter a b @ [fwd_more_line a b]"

definition forwards_section :: "(string set \<Rightarrow> string list) \<Rightarrow> string set \<Rightarrow> string set \<Rightarrow> string list" where
  "forwards_section iter fwd_24 fwd_25 =
     fwd_only_header fwd_24 fwd_25 # only_lines fwd_24 fwd_25 @
     fwd_new_header fwd_24 fwd_25 # new_lines fwd_24 fwd_25 @
     fwd_common_block iter fwd_24 fwd_25"

text \<open>Lines 36--46.\<close>

definition goalies_section :: "string set \<Rightarrow> string set \<Rightarrow> string list" where
  "goalies_section g_24 g_25 =
     ''\<newline>24-25 Only:'' # only_lines g_24 g_25 @
     ''\<newline>25-26 New:'' # new_lines g_24 g_25 @
     ''\<newline>Common:'' # goalie_common_lines g_24 g_25"

subsection \<open>The script\<close>

text \<open>
  A run yields what was printed and how the process ended: \<open>Inr ()\<close> for a normal exit,
  \<open>Inl e\<close> for the uncaught exception \<open>e\<close>. Lines 11--46, after both fetches:
\<close>

type_synonym run = "string list \<times> (error + unit)"

definition report :: "(string set \<Rightarrow> string list) \<Rightarrow> roster_doc \<Rightarrow> roster_doc \<Rightarrow> run" where
  "report iter season_24 season_25 =
     (let out0 = [''\<newline>=== UTAH ROSTER COMPARISON ===\<newline>'', ''FORWARDS:''] in
      case extract_names season_24 ''forwards'' of
        Inl e \<Rightarrow> (out0, Inl e)
      | Inr fwd_24 \<Rightarrow>
     (case extract_names season_25 ''forwards'' of
        Inl e \<Rightarrow> (out0, Inl e)
      | Inr fwd_25 \<Rightarrow>
     (let out1 = out0 @ forwards_section iter fwd_24 fwd_25 @ [''\<newline>\<newline>GOALIES:''] in
      case extract_names season_24 ''goalies'' of
        Inl e \<Rightarrow> (out1, Inl e)
      | Inr g_24 \<Rightarrow>
     (case extract_names season_25 ''goalies'' of
        Inl e \<Rightarrow> (out1, Inl e)
      | Inr g_25 \<Rightarrow> (out1 @ goalies_section g_24 g_25, Inr ())))))"

definition main :: "(string \<Rightarrow> http_result) \<Rightarrow> (string set \<Rightarrow> string list) \<Rightarrow> run" where
  "main net iter =
     (case get_roster net ''20242025'' of
        Inl e \<Rightarrow> ([], Inl e)
      | Inr season_24 \<Rightarrow>
     (case get_roster net ''20252026'' of
        Inl e \<Rightarrow> ([], Inl e)
      | Inr season_25 \<Rightarrow> report iter season_24 season_25))"

text \<open>The exit status: an uncaught exception ends the interpreter with status 1.\<close>

definition exit_status :: "run \<Rightarrow> nat" where
  "exit_status r = (case snd r of Inl e \<Rightarrow> 1 | Inr u \<Rightarrow> 0)"

section \<open>Notions used in the properties\<close>

text \<open>
  Python's \<open><=\<close> on \<open>str\<close>: the first differing character decides, by its number;
  a proper prefix comes first. Upper case sorts before lower case, and nothing is reordered
  or collated.
\<close>

fun str_le :: "string \<Rightarrow> string \<Rightarrow> bool" where
  "str_le [] t = True"
| "str_le (c # cs) [] = False"
| "str_le (c # cs) (d # ds) = ((of_char c :: nat) < of_char d \<or> (c = d \<and> str_le cs ds))"

definition str_lt :: "string \<Rightarrow> string \<Rightarrow> bool" where
  "str_lt s t = (str_le s t \<and> s \<noteq> t)"

text \<open>
  A player record lacks a name when \<open>firstName\<close> or \<open>lastName\<close> is absent or has no
  \<open>default\<close> entry.
\<close>

definition lacks_default :: "player \<Rightarrow> string \<Rightarrow> bool" where
  "lacks_default p k = (case p k of None \<Rightarrow> True | Some f \<Rightarrow> f ''default'' = None)"

definition lacks_name :: "player \<Rightarrow> bool" where
  "lacks_name p = (lacks_default p ''firstName'' \<or> lacks_default p ''lastName'')"

subsection \<open>Example inputs\<close>

text \<open>One possible iteration order of a finite set: descending.\<close>

definition rev_iter :: "string set \<Rightarrow> string list" where
  "rev_iter S = rev (sorted_list_of_set S)"

definition mk_player :: "string \<Rightarrow> string \<Rightarrow> player" where
  "mk_player f l =
     [''firstName'' \<mapsto> [''default'' \<mapsto> f], ''lastName'' \<mapsto> [''default'' \<mapsto> l]]"

definition ex_season_24 :: roster_doc where
  "ex_season_24 =
     [''forwards'' \<mapsto> [mk_player ''Alex'' ''Kerfoot'', mk_player ''Clayton'' ''Keller''],
      ''goalies'' \<mapsto> [mk_player ''Karel'' ''Vejmelka'']]"

definition ex_season_25 :: roster_doc where
  "ex_season_25 =
     [''forwards'' \<mapsto> [mk_player ''Clayton'' ''Keller'', mk_player ''Dylan'' ''Guenther''],
      ''goalies'' \<mapsto> [mk_player ''Karel'' ''Vejmelka'']]"

definition swapped_season_24 :: roster_doc where
  "swapped_season_24 =
     [''forwards'' \<mapsto> [mk_player ''Clayton'' ''Keller'', mk_player ''Alex'' ''Kerfoot''],
      ''goalies'' \<mapsto> [mk_player ''Karel'' ''Vejmelka'']]"


definition six_names :: "string set" where
  "six_names =
     {''Alex Kerfoot'', ''Barrett Hayton'', ''Clayton Keller'', ''Dylan Guenther'',
      ''Jack McBain'', ''Logan Cooley''}"

definition ok_response :: response where
  "ok_response = \<lparr>status_code = 200, json_body = Some ex_season_24\<rparr>"

definition not_found_response :: response where
  "not_found_response = \<lparr>status_code = 404, json_body = Some Map.empty\<rparr>"

definition undecodable_response :: response where
  "undecodable_response = \<lparr>status_code = 404, json_body = None\<rparr>"

definition net_404 :: "string \<Rightarrow> http_result" where
  "net_404 url =
     (if url = roster_url ''20252026'' then Response not_found_response
      else Response ok_response)"

definition net_undecodable :: "string \<Rightarrow> http_result" where
  "net_undecodable url =
     (if url = roster_url ''20252026'' then Response undecodable_response
      else Response ok_response)"

definition broken_player :: player where
  "broken_player =
     [''firstName'' \<mapsto> [''default'' \<mapsto> ''Clayton''], ''lastName'' \<mapsto> Map.empty]"

definition broken_doc :: roster_doc where
  "broken_doc = [''forwards'' \<mapsto> [mk_player ''Alex'' ''Kerfoot'', broken_player]]"

definition net_broken :: "string \<Rightarrow> http_result" where
  "net_broken url = Response \<lparr>status_code = 200, json_body = Some broken_doc\<rparr>"

section \<open>Auxiliary facts\<close>

subsection \<open>String order\<close>

lemma str_le_iff: "str_le s t \<longleftrightarrow> s \<le> t"
  by (induction s t rule: str_le.induct) (simp_all add: less_char_def)

lemma str_lt_iff: "str_lt s t \<longleftrightarrow> s < t"
  by (auto simp: str_lt_def str_le_iff)

lemma str_le_append_same: "str_le (p @ s) (p @ t) = str_le s t"
  by (induction p) simp_all

lemma str_le_case_sensitive: "str_le ''Zed'' ''adam'' \<and> \<not> str_le ''adam'' ''Zed''"
  by simp

lemma sorted_lines:
  assumes "sorted xs"
  shows "sorted_wrt str_le (map (\<lambda>p. pre @ p) xs)"
proof -
  have "str_le = (\<le>)"
    by (intro ext) (rule str_le_iff)
  with assms have "sorted_wrt str_le xs"
    by simp
  then show ?thesis
    by (simp add: sorted_wrt_map str_le_append_same)
qed

subsection \<open>Name extraction\<close>

lemma name_set_Inr_iff:
  "name_set ps = Inr S \<longleftrightarrow>
     (\<forall>p\<in>set ps. \<exists>n. player_name p = Inr n) \<and> S = {n. \<exists>p\<in>set ps. player_name p = Inr n}"
proof (induction ps arbitrary: S)
  case Nil
  show ?case by auto
next
  case (Cons p ps)
  show ?case
  proof (cases "player_name p")
    case (Inl e)
    then show ?thesis by auto
  next
    case (Inr n)
    note pn = this
    show ?thesis
    proof (cases "name_set ps")
      case (Inl e)
      with pn Cons.IH show ?thesis by auto
    next
      case (Inr T)
      with pn Cons.IH [of T] show ?thesis by auto
    qed
  qed
qed

lemma name_set_Inl_iff:
  "(\<exists>e. name_set ps = Inl e) \<longleftrightarrow> (\<exists>p\<in>set ps. \<exists>e. player_name p = Inl e)"
  by (induction ps) (auto split: sum.splits)

lemma name_set_error_is_KeyError: "name_set ps = Inl e \<Longrightarrow> \<exists>k. e = KeyError k"
  by (induction ps) (auto simp: player_name_def subscript_def split: sum.splits option.splits)

lemma lacks_name_raises: "lacks_name p \<Longrightarrow> \<exists>k. player_name p = Inl (KeyError k)"
  by (auto simp: lacks_name_def lacks_default_def player_name_def subscript_def
      split: option.splits)

lemma player_name_raises_iff: "(\<exists>e. player_name p = Inl e) \<longleftrightarrow> lacks_name p"
  by (auto simp: lacks_name_def lacks_default_def player_name_def subscript_def
      split: option.splits)

lemma extract_names_raises:
  assumes "doc grp = Some recs" "p \<in> set recs" "lacks_name p"
  shows "\<exists>k. extract_names doc grp = Inl (KeyError k)"
proof -
  from assms(3) obtain k where "player_name p = Inl (KeyError k)"
    using lacks_name_raises by blast
  with assms(2) have "\<exists>e. name_set recs = Inl e"
    using name_set_Inl_iff by blast
  then obtain e where e: "name_set recs = Inl e" ..
  then obtain k' where "e = KeyError k'"
    using name_set_error_is_KeyError by blast
  with e assms(1) show ?thesis
    by (simp add: extract_names_def get_default_def)
qed

subsection \<open>Propagation through the script\<close>

lemma report_raises_24:
  "extract_names season_24 grp = Inl e \<Longrightarrow> grp = ''forwards'' \<or> grp = ''goalies'' \<Longrightarrow>
   \<exists>e'. snd (report iter season_24 season_25) = Inl e'"
  by (auto simp: report_def Let_def split: sum.splits)

lemma report_raises_25:
  "extract_names season_25 grp = Inl e \<Longrightarrow> grp = ''forwards'' \<or> grp = ''goalies'' \<Longrightarrow>
   \<exists>e'. snd (report iter season_24 season_25) = Inl e'"
  by (auto simp: report_def Let_def split: sum.splits)

lemma report_error_is_KeyError:
  "snd (report iter season_24 season_25) = Inl e \<Longrightarrow> \<exists>k. e = KeyError k"
  by (auto simp: report_def Let_def extract_names_def split: sum.splits
      dest: name_set_error_is_KeyError)

subsection \<open>The example inputs evaluated\<close>

lemma player_name_mk [simp]: "player_name (mk_player f l) = Inr (f @ '' '' @ l)"
  by (simp add: player_name_def mk_player_def subscript_def)

lemma ex_24_fwd:
  "extract_names ex_season_24 ''forwards'' = Inr {''Alex Kerfoot'', ''Clayton Keller''}"
  by (simp add: extract_names_def get_default_def ex_season_24_def)

lemma ex_25_fwd:
  "extract_names ex_season_25 ''forwards'' = Inr {''Clayton Keller'', ''Dylan Guenther''}"
  by (simp add: extract_names_def get_default_def ex_season_25_def)

lemma ex_24_goalies: "extract_names ex_season_24 ''goalies'' = Inr {''Karel Vejmelka''}"
  by (simp add: extract_names_def get_default_def ex_season_24_def)

lemma ex_25_goalies: "extract_names ex_season_25 ''goalies'' = Inr {''Karel Vejmelka''}"
  by (simp add: extract_names_def get_default_def ex_season_25_def)

lemma ex_sets:
  "{''Alex Kerfoot'', ''Clayton Keller''} - {''Clayton Keller'', ''Dylan Guenther''} =
     {''Alex Kerfoot''}"
  "{''Clayton Keller'', ''Dylan Guenther''} - {''Alex Kerfoot'', ''Clayton Keller''} =
     {''Dylan Guenther''}"
  "{''Alex Kerfoot'', ''Clayton Keller''} \<inter> {''Clayton Keller'', ''Dylan Guenther''} =
     {''Clayton Keller''}"
  by auto

lemma digits_small: "n < 10 \<Longrightarrow> digits n = [digit_char n]"
  by (simp add: digits.simps)

lemma str_of_int_vals:
  "str_of_int 0 = ''0''" "str_of_int 1 = ''1''" "str_of_int 6 = ''6''"
  "str_of_int (- 4) = ''-4''" "str_of_int (- 5) = ''-5''"
  by (simp_all add: str_of_int_def digits_small digit_char_def)

lemma six_sorted:
  "sorted_list_of_set six_names =
     [''Alex Kerfoot'', ''Barrett Hayton'', ''Clayton Keller'', ''Dylan Guenther'',
      ''Jack McBain'', ''Logan Cooley'']"
  by (simp add: six_names_def)

lemma six_card: "card six_names = 6"
  by (simp add: six_names_def)

lemma six_iter:
  "distinct (rev_iter (common six_names six_names))"
  "set (rev_iter (common six_names six_names)) = common six_names six_names"
  by (auto simp: rev_iter_def common_def six_names_def)

lemma six_common_names:
  "fwd_common_names rev_iter six_names six_names =
     [''Barrett Hayton'', ''Clayton Keller'', ''Dylan Guenther'', ''Jack McBain'',
      ''Logan Cooley'']"
  by (simp add: common_def rev_iter_def six_sorted fwd_common_names_def)

section \<open>Properties\<close>

subsection \<open>The forwards Common block\<close>

text \<open>
  Up to five common names, all of them are printed in ascending order; above five, the
  five printed are the first five of the iteration order, sorted afterwards. In both cases
  the block ends with the \<open>... and k more\<close> line, which no condition guards.
\<close>

lemma fwd_common_small:
  assumes "card (common a b) \<le> 5"
    and "distinct (iter (common a b))"
    and "set (iter (common a b)) = common a b"
  shows "fwd_common_block iter a b =
           fwd_common_header a b # map (\<lambda>p. ''    '' @ p) (sorted_list_of_set (common a b)) @
           [fwd_more_line a b]"
proof -
  have "length (iter (common a b)) = card (common a b)"
    using assms(2,3) distinct_card by fastforce
  with assms(1) have "take 5 (iter (common a b)) = iter (common a b)"
    by simp
  moreover have "sort (iter (common a b)) = sorted_list_of_set (set (iter (common a b)))"
    using assms(2) by (simp add: sorted_list_of_set_sort_remdups distinct_remdups_id)
  ultimately show ?thesis
    using assms(3) by (simp add: fwd_common_block_def fwd_common_lines_def fwd_common_names_def)
qed

lemma fwd_common_truncated:
  assumes "5 < card (common a b)"
    and "distinct (iter (common a b))"
    and "set (iter (common a b)) = common a b"
  shows "fwd_common_block iter a b =
           fwd_common_header a b # map (\<lambda>p. ''    '' @ p) (fwd_common_names iter a b) @
           [''    ... and '' @ digits (card (common a b) - 5) @ '' more''] \<and>
         fwd_common_names iter a b = sort (take 5 (iter (common a b))) \<and>
         length (fwd_common_names iter a b) = 5 \<and>
         distinct (fwd_common_names iter a b) \<and>
         set (fwd_common_names iter a b) \<subseteq> common a b \<and>
         sorted_wrt str_le (fwd_common_names iter a b)"
proof -
  let ?xs = "take 5 (iter (common a b))"
  have "length (iter (common a b)) = card (common a b)"
    using assms(2,3) distinct_card by fastforce
  with assms(1) have len: "length ?xs = 5"
    by simp
  have sub: "set ?xs \<subseteq> common a b"
    using assms(3) set_take_subset by fastforce
  have "str_le = (\<le>)"
    by (intro ext) (rule str_le_iff)
  then have srt: "sorted_wrt str_le (sort ?xs)"
    by simp
  have more: "str_of_int (int (card (common a b)) - 5) = digits (card (common a b) - 5)"
    using assms(1) by (simp add: str_of_int_def nat_diff_distrib')
  show ?thesis
    using len sub srt assms(2) more
    by (simp add: fwd_common_block_def fwd_common_lines_def fwd_common_names_def
        fwd_more_line_def)
qed

lemma fwd_common_truncated_example:
  "5 < card (common six_names six_names) \<and>
   fwd_common_block rev_iter six_names six_names =
     [''\<newline>Common (6):'', ''    Barrett Hayton'', ''    Clayton Keller'',
      ''    Dylan Guenther'', ''    Jack McBain'', ''    Logan Cooley'',
      ''    ... and 1 more'']"
proof -
  have c: "5 < card (common six_names six_names)"
    by (simp add: common_def six_card)
  have h: "fwd_common_header six_names six_names = ''\<newline>Common (6):''"
    by (simp add: fwd_common_header_def common_def six_card str_of_int_vals)
  have d: "digits (card (common six_names six_names) - 5) = ''1''"
    by (simp add: common_def six_card digits_small digit_char_def)
  show ?thesis
    using fwd_common_truncated [where a = six_names and b = six_names and iter = rev_iter]
      c six_iter six_common_names h d by simp
qed

text \<open>
  C1, where the script departs from the specification, which says: with at most five
  common forwards all of them are printed and no \<open>... more\<close> line follows. On the rosters
  \<open>{Alex Kerfoot, Clayton Keller}\<close> and \<open>{Clayton Keller, Dylan Guenther}\<close> the one
  common name is printed, and after it the line \<open>... and -4 more\<close>: line 29 is
  unconditional.
\<close>

theorem forwards_small_common_prints_more_line:
  "forwards_section rev_iter {''Alex Kerfoot'', ''Clayton Keller''}
       {''Clayton Keller'', ''Dylan Guenther''} =
     [''\<newline>24-25 Only (1):'', ''  - Alex Kerfoot'',
      ''\<newline>25-26 New (1):'', ''  + Dylan Guenther'',
      ''\<newline>Common (1):'', ''    Clayton Keller'', ''    ... and -4 more'']"
  by (simp add: forwards_section_def fwd_only_header_def fwd_new_header_def
      fwd_common_block_def fwd_common_header_def fwd_common_lines_def fwd_common_names_def
      fwd_more_line_def only_lines_def new_lines_def only_in_first_def only_in_second_def
      common_def ex_sets rev_iter_def str_of_int_vals)

text \<open>
  C2, where the script departs from the specification, which says: with more than five
  common forwards the names printed are the five smallest of the common set. With six common names enumerated
  in descending order, line 27 slices first and sorts afterwards: the five printed start at
  \<open>Barrett Hayton\<close>, and the smallest name, \<open>Alex Kerfoot\<close>, is not printed.
\<close>

theorem fwd_common_not_five_smallest:
  "5 < card (common six_names six_names) \<and>
   distinct (rev_iter (common six_names six_names)) \<and>
   set (rev_iter (common six_names six_names)) = common six_names six_names \<and>
   fwd_common_names rev_iter six_names six_names =
     [''Barrett Hayton'', ''Clayton Keller'', ''Dylan Guenther'', ''Jack McBain'',
      ''Logan Cooley''] \<and>
   take 5 (sorted_list_of_set (common six_names six_names)) =
     [''Alex Kerfoot'', ''Barrett Hayton'', ''Clayton Keller'', ''Dylan Guenther'',
      ''Jack McBain''] \<and>
   fwd_common_names rev_iter six_names six_names \<noteq>
     take 5 (sorted_list_of_set (common six_names six_names))"
  using six_iter
  by (simp add: six_common_names) (simp add: common_def six_sorted six_card)

text \<open>
  C10. Whatever the rosters and whatever the iteration order of the common set, the names
  printed in the forwards Common block are at most five, pairwise distinct, members of the
  common set, and strictly increasing in code-point order; each is printed behind four
  spaces.
\<close>

theorem fwd_common_sample:
  assumes "distinct (iter (common a b))"
    and "set (iter (common a b)) = common a b"
  shows "length (fwd_common_names iter a b) \<le> 5 \<and>
         distinct (fwd_common_names iter a b) \<and>
         set (fwd_common_names iter a b) \<subseteq> common a b \<and>
         sorted_wrt str_lt (fwd_common_names iter a b) \<and>
         fwd_common_lines iter a b = map (\<lambda>p. ''    '' @ p) (fwd_common_names iter a b)"
proof -
  let ?xs = "take 5 (iter (common a b))"
  have d: "distinct (sort ?xs)"
    using assms(1) by simp
  have "set ?xs \<subseteq> common a b"
    using assms(2) set_take_subset by fastforce
  moreover have "sorted_wrt (<) (sort ?xs)"
    using d by (simp add: strict_sorted_iff)
  then have "sorted_wrt str_lt (sort ?xs)"
    using str_lt_iff by (metis (mono_tags, lifting) sorted_wrt_mono_rel)
  ultimately show ?thesis
    using d by (simp add: fwd_common_names_def fwd_common_lines_def)
qed

theorem fwd_common_sample_witness:
  "distinct (rev_iter (common six_names six_names)) \<and>
   set (rev_iter (common six_names six_names)) = common six_names six_names \<and>
   length (fwd_common_names rev_iter six_names six_names) \<le> 5 \<and>
   distinct (fwd_common_names rev_iter six_names six_names) \<and>
   set (fwd_common_names rev_iter six_names six_names) \<subseteq> common six_names six_names \<and>
   sorted_wrt str_lt (fwd_common_names rev_iter six_names six_names)"
  using fwd_common_sample [of rev_iter six_names six_names] six_iter by simp

subsection \<open>Fetching\<close>

text \<open>
  C3 as stated fails: the status code is never read. A 404 for the second season whose
  body decodes to a JSON object (here one without roster keys) is compared like any other
  roster; the report is printed and the exit status is 0.
\<close>

theorem status_404_with_json_body_runs:
  "net_404 (roster_url ''20252026'') = Response not_found_response \<and>
   status_code not_found_response = 404 \<and>
   fst (main net_404 rev_iter) \<noteq> [] \<and>
   snd (main net_404 rev_iter) = Inr () \<and>
   exit_status (main net_404 rev_iter) = 0"
proof -
  have a: "get_roster net_404 ''20242025'' = Inr ex_season_24"
    by (simp add: get_roster_def net_404_def roster_url_def ok_response_def)
  have b: "get_roster net_404 ''20252026'' = Inr Map.empty"
    by (simp add: get_roster_def net_404_def not_found_response_def)
  have e: "extract_names Map.empty grp = Inr {}" for grp
    by (simp add: extract_names_def get_default_def)
  show ?thesis
    by (simp add: main_def a b report_def e ex_24_fwd ex_24_goalies Let_def exit_status_def
        net_404_def not_found_response_def)
qed

text \<open>
  C3, amended. For every fetch, of either season, that receives an HTTP response whose
  body does not decode as JSON, whatever its status code, the script ends with a non-zero
  exit status before anything is printed.
\<close>

theorem undecodable_body_fatal:
  assumes "s = ''20242025'' \<or> s = ''20252026''"
    and "net (roster_url s) = Response r"
    and "json_body r = None"
  shows "fst (main net iter) = [] \<and> exit_status (main net iter) = 1"
proof -
  have bad: "get_roster net s = Inl JSONDecodeError"
    using assms(2,3) by (simp add: get_roster_def)
  show ?thesis
  proof (cases "get_roster net ''20242025''")
    case (Inl e)
    then show ?thesis
      by (simp add: main_def exit_status_def)
  next
    case (Inr season_24)
    with bad assms(1) have "get_roster net ''20252026'' = Inl JSONDecodeError"
      by auto
    with Inr show ?thesis
      by (simp add: main_def exit_status_def)
  qed
qed

theorem undecodable_body_fatal_witness:
  "net_undecodable (roster_url ''20252026'') = Response undecodable_response \<and>
   json_body undecodable_response = None \<and>
   fst (main net_undecodable rev_iter) = [] \<and>
   exit_status (main net_undecodable rev_iter) = 1"
proof -
  have a: "net_undecodable (roster_url ''20252026'') = Response undecodable_response"
    by (simp add: net_undecodable_def)
  have b: "json_body undecodable_response = None"
    by (simp add: undecodable_response_def)
  show ?thesis
    using undecodable_body_fatal
      [of "''20252026''" net_undecodable undecodable_response rev_iter] a b
    by simp
qed

subsection \<open>Section headers\<close>

text \<open>
  C4, where the script departs from the specification, which says: every sub-list header
  of both groups carries the count in parentheses. On the example rosters the forwards headers do; the
  goalies headers are printed as \<open>24-25 Only:\<close>, \<open>25-26 New:\<close> and \<open>Common:\<close>, with
  no count, although the Common sub-list holds one name.
\<close>

theorem goalies_headers_without_counts:
  "report rev_iter ex_season_24 ex_season_25 =
     ([''\<newline>=== UTAH ROSTER COMPARISON ===\<newline>'', ''FORWARDS:'',
       ''\<newline>24-25 Only (1):'', ''  - Alex Kerfoot'',
       ''\<newline>25-26 New (1):'', ''  + Dylan Guenther'',
       ''\<newline>Common (1):'', ''    Clayton Keller'', ''    ... and -4 more'',
       ''\<newline>\<newline>GOALIES:'',
       ''\<newline>24-25 Only:'', ''\<newline>25-26 New:'', ''\<newline>Common:'',
       ''    Karel Vejmelka''],
      Inr ())"
  by (simp add: report_def ex_24_fwd ex_25_fwd ex_24_goalies ex_25_goalies
      forwards_section_def fwd_only_header_def fwd_new_header_def
      fwd_common_block_def fwd_common_header_def fwd_common_lines_def fwd_common_names_def
      fwd_more_line_def only_lines_def new_lines_def only_in_first_def only_in_second_def
      common_def ex_sets rev_iter_def str_of_int_vals goalies_section_def
      goalie_common_lines_def)

subsection \<open>The comparison partitions the union\<close>

text \<open>
  C5. For all name sets \<open>a\<close> and \<open>b\<close>, the sets \<open>a - b\<close>, \<open>b - a\<close> and \<open>a \<inter> b\<close> the
  script compares are pairwise disjoint and their union is \<open>a \<union> b\<close>; empty sets are not
  treated specially.
\<close>

theorem compare_partition:
  "only_in_first a b \<inter> only_in_second a b = {} \<and>
   only_in_first a b \<inter> common a b = {} \<and>
   only_in_second a b \<inter> common a b = {} \<and>
   only_in_first a b \<union> only_in_second a b \<union> common a b = a \<union> b"
  unfolding only_in_first_def only_in_second_def common_def by blast

subsection \<open>Name extraction\<close>



text \<open>
  C7. A player record, present in the sequence of one of the two position groups, that
  lacks \<open>firstName\<close> or \<open>lastName\<close> or the \<open>default\<close> entry under either makes name
  extraction raise \<open>KeyError\<close>; no value is substituted. The error propagates: the
  report ends with that \<open>KeyError\<close> whichever season the document is, and a run that
  fetched the document ends with exit status 1.
\<close>

theorem missing_name_field_fatal:
  assumes "doc grp = Some recs"
    and "p \<in> set recs"
    and "lacks_name p"
    and "grp = ''forwards'' \<or> grp = ''goalies''"
  shows "(\<exists>k. extract_names doc grp = Inl (KeyError k)) \<and>
         (\<exists>k. snd (report iter doc other) = Inl (KeyError k)) \<and>
         (\<exists>k. snd (report iter other doc) = Inl (KeyError k)) \<and>
         ((s = ''20242025'' \<or> s = ''20252026'') \<and> get_roster net s = Inr doc
            \<longrightarrow> exit_status (main net iter) = 1)"
proof -
  from assms(1-3) obtain k where k: "extract_names doc grp = Inl (KeyError k)"
    using extract_names_raises by blast
  have r1: "\<exists>k. snd (report iter doc other) = Inl (KeyError k)"
    using report_raises_24 [OF k assms(4)] report_error_is_KeyError by blast
  have r2: "\<exists>k. snd (report iter other doc) = Inl (KeyError k)"
    using report_raises_25 [OF k assms(4)] report_error_is_KeyError by blast
  have "exit_status (main net iter) = 1"
    if s: "s = ''20242025'' \<or> s = ''20252026''" and g: "get_roster net s = Inr doc"
  proof (cases "get_roster net ''20242025''")
    case (Inl e)
    then show ?thesis
      by (simp add: main_def exit_status_def)
  next
    case (Inr season_24)
    note a = this
    show ?thesis
    proof (cases "get_roster net ''20252026''")
      case (Inl e)
      with a show ?thesis
        by (simp add: main_def exit_status_def)
    next
      case (Inr season_25)
      have "\<exists>e. snd (report iter season_24 season_25) = Inl e"
        using s g a Inr report_raises_24 [OF k assms(4)] report_raises_25 [OF k assms(4)]
        by auto
      with a Inr show ?thesis
        by (auto simp: main_def exit_status_def)
    qed
  qed
  with k r1 r2 show ?thesis
    by blast
qed

theorem missing_name_field_fatal_witness:
  "broken_doc ''forwards'' = Some [mk_player ''Alex'' ''Kerfoot'', broken_player] \<and>
   lacks_name broken_player \<and>
   get_roster net_broken ''20242025'' = Inr broken_doc \<and>
   (\<exists>k. extract_names broken_doc ''forwards'' = Inl (KeyError k)) \<and>
   (\<exists>k. snd (report rev_iter broken_doc ex_season_25) = Inl (KeyError k)) \<and>
   exit_status (main net_broken rev_iter) = 1"
proof -
  have a: "broken_doc ''forwards'' = Some [mk_player ''Alex'' ''Kerfoot'', broken_player]"
    by (simp add: broken_doc_def)
  have b: "broken_player \<in> set [mk_player ''Alex'' ''Kerfoot'', broken_player]"
    by simp
  have c: "lacks_name broken_player"
    by (simp add: lacks_name_def lacks_default_def broken_player_def)
  have d: "get_roster net_broken ''20242025'' = Inr broken_doc"
    by (simp add: get_roster_def net_broken_def)
  show ?thesis
    using missing_name_field_fatal [where doc = broken_doc and grp = "''forwards''"
        and recs = "[mk_player ''Alex'' ''Kerfoot'', broken_player]" and p = broken_player
        and iter = rev_iter and other = ex_season_25 and s = "''20242025''"
        and net = net_broken] a b c d
    by simp
qed

text \<open>
  C9. Name extraction does not depend on the order of the records: when the sequence of a
  group is permuted, extraction succeeds exactly when it did before and yields the same
  name set. A record whose rendered name is already in the set adds nothing.
\<close>

theorem extract_names_order_insensitive:
  assumes "doc grp = Some recs"
    and "doc' grp = Some recs'"
    and "mset recs' = mset recs"
  shows "(\<forall>S. extract_names doc grp = Inr S \<longrightarrow> extract_names doc' grp = Inr S) \<and>
         (isl (extract_names doc grp) \<longleftrightarrow> isl (extract_names doc' grp)) \<and>
         (\<forall>S p n dup. extract_names doc grp = Inr S \<and> player_name p = Inr n \<and> n \<in> S \<and>
             dup grp = Some (p # recs) \<longrightarrow> extract_names dup grp = Inr S)"
proof -
  have st: "set recs' = set recs"
    using assms(3) mset_eq_setD by blast
  have 1: "extract_names doc' grp = Inr S" if "extract_names doc grp = Inr S" for S
    using that assms(1,2) st by (simp add: extract_names_def get_default_def name_set_Inr_iff)
  have 2: "isl (extract_names doc grp) \<longleftrightarrow> isl (extract_names doc' grp)"
    using assms(1,2) st name_set_Inl_iff [of recs] name_set_Inl_iff [of recs']
    by (simp add: extract_names_def get_default_def isl_def)
  have 3: "extract_names dup grp = Inr S"
    if "extract_names doc grp = Inr S" "player_name p = Inr n" "n \<in> S"
      "dup grp = Some (p # recs)" for S p n dup
    using that assms(1) by (auto simp: extract_names_def get_default_def)
  from 1 2 3 show ?thesis
    by blast
qed

theorem extract_names_order_insensitive_witness:
  "mset [mk_player ''Clayton'' ''Keller'', mk_player ''Alex'' ''Kerfoot''] =
     mset [mk_player ''Alex'' ''Kerfoot'', mk_player ''Clayton'' ''Keller''] \<and>
   extract_names ex_season_24 ''forwards'' = Inr {''Alex Kerfoot'', ''Clayton Keller''} \<and>
   extract_names swapped_season_24 ''forwards'' = Inr {''Alex Kerfoot'', ''Clayton Keller''}"
proof -
  have a: "ex_season_24 ''forwards'' =
      Some [mk_player ''Alex'' ''Kerfoot'', mk_player ''Clayton'' ''Keller'']"
    by (simp add: ex_season_24_def)
  have b: "swapped_season_24 ''forwards'' =
      Some [mk_player ''Clayton'' ''Keller'', mk_player ''Alex'' ''Kerfoot'']"
    by (simp add: swapped_season_24_def)
  have c: "mset [mk_player ''Clayton'' ''Keller'', mk_player ''Alex'' ''Kerfoot''] =
     mset [mk_player ''Alex'' ''Kerfoot'', mk_player ''Clayton'' ''Keller'']"
    by simp
  show ?thesis
    using extract_names_order_insensitive [where doc = ex_season_24 and grp = "''forwards''"
        and doc' = swapped_season_24
        and recs = "[mk_player ''Alex'' ''Kerfoot'', mk_player ''Clayton'' ''Keller'']"
        and recs' = "[mk_player ''Clayton'' ''Keller'', mk_player ''Alex'' ''Kerfoot'']"]
      a b c ex_24_fwd
    by simp
qed

subsection \<open>Order of the printed names\<close>

text \<open>
  C8. In every printed sub-list (Only, New and Common of both groups) the name lines are
  non-decreasing in the plain code-point order of strings: \<open>only_lines\<close> and
  \<open>new_lines\<close> serve both groups, the two Common loops are \<open>fwd_common_lines\<close> and
  \<open>goalie_common_lines\<close>.
\<close>

theorem name_lines_sorted:
  "sorted_wrt str_le (only_lines a b) \<and>
   sorted_wrt str_le (new_lines a b) \<and>
   sorted_wrt str_le (fwd_common_lines iter a b) \<and>
   sorted_wrt str_le (goalie_common_lines a b)"
  unfolding only_lines_def new_lines_def fwd_common_lines_def fwd_common_names_def
    goalie_common_lines_def
  by (intro conjI sorted_lines) simp_all

end
